theory Spec2Isabelle
  imports Main
begin

section \<open>Terminology tools: the lookup-code and validate-code handlers\<close>

text \<open>
  The development embeds \<^verbatim>\<open>src/tx-tools/src/server.ts\<close>: the two tool handlers
  registered on the server, their declared input schemas, and the library operations the
  handlers call (\<^verbatim>\<open>URLSearchParams.set\<close>, \<^verbatim>\<open>JSON.stringify\<close> with an
  indentation of two spaces, template literals). Everything the handlers receive from
  outside (the process environment, the URL parser, the HTTP client and the response
  it resolves to) is an explicit argument.
\<close>

subsection \<open>Thrown values\<close>

text \<open>
  A JavaScript \<^verbatim>\<open>throw\<close> carries any value. The handlers' catch blocks distinguish
  an instance of \<^verbatim>\<open>Error\<close>, whose \<^verbatim>\<open>message\<close> they print, from any other value,
  which they print through \<^verbatim>\<open>String(error)\<close>; \<open>Thrown s\<close> is such a value whose
  string conversion is \<open>s\<close>.
\<close>

datatype thrown = JsError string | Thrown string

text \<open>\<^verbatim>\<open>error instanceof Error ? error.message : String(error)\<close>\<close>

fun error_text :: "thrown \<Rightarrow> string" where
  "error_text (JsError message) = message"
| "error_text (Thrown s) = s"

subsection \<open>JSON values and \<^verbatim>\<open>JSON.stringify(value, null, 2)\<close>\<close>

text \<open>
  A parsed JSON value. An object is the list of its own properties in enumeration order
  (the order in which \<^verbatim>\<open>JSON.stringify\<close> visits them). The numbers are the
  values of the type \<open>'n\<close>, which stands for the runtime's double-precision numbers;
  their arithmetic is not modelled, and the text the runtime writes for one is an argument
  of the serialisation below.
\<close>

datatype 'n json =
    JNull
  | JBool bool
  | JNumber 'n
  | JString string
  | JArray "'n json list"
  | JObject "(string \<times> 'n json) list"

definition digit_char :: "nat \<Rightarrow> char" where
  "digit_char d = ''0123456789'' ! d"

text \<open>The decimal numeral of a natural number, as a template literal prints it.\<close>

function string_of_nat :: "nat \<Rightarrow> string" where
  "string_of_nat n =
     (if n < 10 then [digit_char n] else string_of_nat (n div 10) @ [digit_char (n mod 10)])"
  by pat_completeness auto
termination
  by (relation "measure id") auto

declare string_of_nat.simps [simp del]

definition hex_char :: "nat \<Rightarrow> char" where
  "hex_char d = ''0123456789abcdef'' ! d"

text \<open>
  \<^verbatim>\<open>QuoteJSONString\<close>, one code unit at a time: the two-character escapes for the
  quotation mark (0x22), the backslash (0x5C), backspace, tab, line feed, form feed and
  carriage return; a \<^verbatim>\<open>\u00XX\<close> escape for the other control characters; every other
  character unchanged.
\<close>

definition quote_char :: "char \<Rightarrow> string" where
  "quote_char c =
     (let n = (of_char c :: nat) in
      if n = 0x22 then [CHR 0x5C, CHR 0x22]
      else if n = 0x5C then [CHR 0x5C, CHR 0x5C]
      else if n = 0x08 then [CHR 0x5C, CHR ''b'']
      else if n = 0x09 then [CHR 0x5C, CHR ''t'']
      else if n = 0x0A then [CHR 0x5C, CHR ''n'']
      else if n = 0x0C then [CHR 0x5C, CHR ''f'']
      else if n = 0x0D then [CHR 0x5C, CHR ''r'']
      else if n < 0x20 then [CHR 0x5C, CHR ''u'', CHR ''0'', CHR ''0'', hex_char (n div 16), hex_char (n mod 16)]
      else [c])"

definition quote :: "string \<Rightarrow> string" where
  "quote s = CHR 0x22 # concat (map quote_char s) @ [CHR 0x22]"

text \<open>\<^verbatim>\<open>Array.prototype.join\<close> on strings.\<close>

fun join :: "string \<Rightarrow> string list \<Rightarrow> string" where
  "join sep [] = []"
| "join sep [x] = x"
| "join sep (x # y # ys) = x @ sep @ join sep (y # ys)"

text \<open>
  \<^verbatim>\<open>SerializeJSONProperty\<close> with the gap of two spaces; \<open>indent\<close> is the current
  indentation. An empty array or object has no line break inside. \<open>number_text\<close> is
  what the runtime writes for a number: \<^verbatim>\<open>Number::toString\<close> of a finite number (so
  \<^verbatim>\<open>1e+21\<close> for ten to the power 21, \<^verbatim>\<open>1.5\<close> for three halves) and
  \<^verbatim>\<open>null\<close> for one that is not finite.
\<close>

fun serialize :: "('n \<Rightarrow> string) \<Rightarrow> string \<Rightarrow> 'n json \<Rightarrow> string" where
  "serialize number_text indent JNull = ''null''"
| "serialize number_text indent (JBool b) = (if b then ''true'' else ''false'')"
| "serialize number_text indent (JNumber x) = number_text x"
| "serialize number_text indent (JString s) = quote s"
| "serialize number_text indent (JArray xs) =
     (if xs = [] then ''[]''
      else ''['' @ [CHR 0x0A] @ (indent @ ''  '')
           @ join ('','' @ [CHR 0x0A] @ (indent @ ''  ''))
               (map (serialize number_text (indent @ ''  '')) xs)
           @ [CHR 0x0A] @ indent @ '']'')"
| "serialize number_text indent (JObject ps) =
     (if ps = [] then ''{}''
      else ''{'' @ [CHR 0x0A] @ (indent @ ''  '')
           @ join ('','' @ [CHR 0x0A] @ (indent @ ''  ''))
               (map (\<lambda>p. quote (fst p) @ '': ''
                       @ serialize number_text (indent @ ''  '') (snd p)) ps)
           @ [CHR 0x0A] @ indent @ ''}'')"

definition JSON_stringify :: "('n \<Rightarrow> string) \<Rightarrow> 'n json \<Rightarrow> string" where
  "JSON_stringify number_text v = serialize number_text [] v"

subsection \<open>The request URL\<close>

text \<open>
  A parsed \<^verbatim>\<open>URL\<close>: \<open>location\<close> is everything before the query (scheme, host and
  path) and \<open>searchParams\<close> is the list of name-value pairs of its query, in order.
\<close>

record URL =
  location :: string
  searchParams :: "(string \<times> string) list"

text \<open>
  \<^verbatim>\<open>URLSearchParams.set(name, value)\<close>: the first pair with that name takes the
  value and the later pairs with that name are removed; with no such pair, a new pair is
  appended.
\<close>

fun searchParams_set :: "(string \<times> string) list \<Rightarrow> string \<Rightarrow> string \<Rightarrow> (string \<times> string) list" where
  "searchParams_set [] n v = [(n, v)]"
| "searchParams_set (p # ps) n v =
     (if fst p = n then (n, v) # filter (\<lambda>q. fst q \<noteq> n) ps
      else p # searchParams_set ps n v)"

text \<open>\<^verbatim>\<open>URLSearchParams.getAll(name)\<close>: every value sent under that name.\<close>

definition searchParams_getAll :: "(string \<times> string) list \<Rightarrow> string \<Rightarrow> string list" where
  "searchParams_getAll ps n = map snd (filter (\<lambda>q. fst q = n) ps)"

definition set_param :: "URL \<Rightarrow> string \<Rightarrow> string \<Rightarrow> URL" where
  "set_param u n v = u\<lparr>searchParams := searchParams_set (searchParams u) n v\<rparr>"

subsection \<open>The HTTP client\<close>

text \<open>
  What \<^verbatim>\<open>fetch\<close> resolves to. \<open>text_result\<close> and \<open>json_result\<close> are what awaiting
  \<^verbatim>\<open>response.text()\<close> and \<^verbatim>\<open>response.json()\<close> gives: a thrown value (a broken
  stream, a body that is not JSON) or the body. The parsed body has the type the handler
  asserts for it (\<^verbatim>\<open>as ValueSet\<close>, \<^verbatim>\<open>as Parameters\<close>).
\<close>

record 'b Response =
  status :: nat
  text_result :: "thrown + string"
  json_result :: "thrown + 'b"

text \<open>The getter \<^verbatim>\<open>response.ok\<close> of node-fetch: the status is in the range 200-299.\<close>

definition ok :: "'b Response \<Rightarrow> bool" where
  "ok response = (200 \<le> status response \<and> status response < 300)"

record RequestInit =
  "method" :: string
  headers :: "(string \<times> string) list"

text \<open>
  The surroundings of a handler: the environment variable \<^verbatim>\<open>TX_SERVER\<close>, the
  constructor \<^verbatim>\<open>new URL(...)\<close>, which throws on a string that is not a URL,
  \<^verbatim>\<open>fetch\<close>, which throws or resolves to a response, and the text the runtime
  writes for a number. The request is identified by its URL object (the string passed to
  \<^verbatim>\<open>fetch\<close> is its serialisation).
\<close>

record ('b, 'n) env =
  TX_SERVER :: "string option"
  new_URL :: "string \<Rightarrow> thrown + URL"
  fetch :: "URL \<Rightarrow> RequestInit \<Rightarrow> thrown + 'b Response"
  number_text :: "'n \<Rightarrow> string"

subsection \<open>FHIR resources, as far as the handlers read them\<close>

record 'n ValueSetExpansion =
  contains :: "'n json list option"

record 'n ValueSet =
  expansion :: "'n ValueSetExpansion option"

record ParametersParameter =
  name :: string
  valueBoolean :: "bool option"
  valueCode :: "string option"
  valueUri :: "string option"
  valueString :: "string option"

record Parameters =
  parameter :: "ParametersParameter list option"

subsection \<open>The tool response\<close>

record TextContent =
  type :: string "text" :: string

record ToolResponse =
  content :: "TextContent list"
  isError :: "bool option"

text \<open>\<^verbatim>\<open>process.env.TX_SERVER ?? "https://tx.ontoserver.csiro.au/fhir"\<close>\<close>

definition serverBase :: "('b, 'n) env \<Rightarrow> string" where
  "serverBase env =
     (case TX_SERVER env of None \<Rightarrow> ''https://tx.ontoserver.csiro.au/fhir'' | Some s \<Rightarrow> s)"

definition request_init :: RequestInit where
  "request_init = \<lparr>method = ''GET'', headers = [(''Accept'', ''application/fhir+json'')]\<rparr>"

subsection \<open>The lookup-code handler\<close>

text \<open>\<^verbatim>\<open>result.expansion?.contains\<close>: undefined when either field is absent.\<close>

definition expansion_contains :: "'n ValueSet \<Rightarrow> 'n json list option" where
  "expansion_contains result = (case expansion result of None \<Rightarrow> None | Some e \<Rightarrow> contains e)"

text \<open>
  The body of the \<^verbatim>\<open>try\<close> block: \<open>Inl\<close> is a value thrown inside it, \<open>Inr\<close> a
  returned response. The length test \<^verbatim>\<open>!result.expansion?.contains?.length\<close> holds
  for an undefined list and for the empty list; otherwise the list has an element 0.
\<close>

definition lookup_try :: "('n ValueSet, 'n) env \<Rightarrow> URL \<Rightarrow> thrown + ToolResponse" where
  "lookup_try env expandUrl =
     (case fetch env expandUrl request_init of
        Inl e \<Rightarrow> Inl e
      | Inr response \<Rightarrow>
          if \<not> ok response then
            (case text_result response of
               Inl e \<Rightarrow> Inl e
             | Inr errorText \<Rightarrow>
                 Inr \<lparr>content =
                        [\<lparr>type = ''text'',
                          text = ''Terminology server error ('' @ string_of_nat (status response)
                                 @ ''): '' @ errorText\<rparr>],
                      isError = Some True\<rparr>)
          else
            (case json_result response of
               Inl e \<Rightarrow> Inl e
             | Inr result \<Rightarrow>
                 (case expansion_contains result of
                    None \<Rightarrow>
                      Inr \<lparr>content = [\<lparr>type = ''text'', text = ''No matching codes found''\<rparr>],
                           isError = None\<rparr>
                  | Some [] \<Rightarrow>
                      Inr \<lparr>content = [\<lparr>type = ''text'', text = ''No matching codes found''\<rparr>],
                           isError = None\<rparr>
                  | Some (firstMatch # rest) \<Rightarrow>
                      Inr \<lparr>content =
                             [\<lparr>type = ''text'',
                               text = JSON_stringify (number_text env) firstMatch\<rparr>],
                           isError = None\<rparr>)))"

text \<open>The URL the handler requests, from the URL parsed from the base.\<close>

definition expand_url :: "URL \<Rightarrow> string \<Rightarrow> string \<Rightarrow> URL" where
  "expand_url u filter' url = set_param (set_param u ''url'' url) ''filter'' filter'"

text \<open>
  The handler. The URL is built before the \<^verbatim>\<open>try\<close> block, so a value thrown by
  \<^verbatim>\<open>new URL\<close> leaves the handler (\<open>Inl\<close>); a value thrown inside the block is
  caught and turned into a response.
\<close>

definition lookup_code ::
  "('n ValueSet, 'n) env \<Rightarrow> string \<Rightarrow> string \<Rightarrow> thrown + ToolResponse" where
  "lookup_code env filter' url =
     (case new_URL env (serverBase env @ ''/ValueSet/$expand'') of
        Inl e \<Rightarrow> Inl e
      | Inr u \<Rightarrow>
          (case lookup_try env (expand_url u filter' url) of
             Inr r \<Rightarrow> Inr r
           | Inl error \<Rightarrow>
               Inr \<lparr>content =
                      [\<lparr>type = ''text'', text = ''Error looking up codes: '' @ error_text error\<rparr>],
                    isError = Some True\<rparr>))"

subsection \<open>The validate-code handler\<close>

record ValidationResult =
  valid :: bool
  code :: string
  system :: string
  version :: "string option"
  display :: "string option"

text \<open>
  \<^verbatim>\<open>result.parameter?.find((p) => p.name === n)\<close>: the first parameter with that
  name, undefined when there is none or no list.
\<close>

definition find_parameter :: "Parameters \<Rightarrow> string \<Rightarrow> ParametersParameter option" where
  "find_parameter result n =
     (case parameter result of None \<Rightarrow> None | Some ps \<Rightarrow> find (\<lambda>p. name p = n) ps)"

text \<open>\<^verbatim>\<open>x?.f\<close> and \<^verbatim>\<open>x ?? d\<close>.\<close>

definition chain :: "'a option \<Rightarrow> ('a \<Rightarrow> 'b option) \<Rightarrow> 'b option" where
  "chain x f = (case x of None \<Rightarrow> None | Some a \<Rightarrow> f a)"

definition nullish :: "'a option \<Rightarrow> 'a \<Rightarrow> 'a" where
  "nullish x d = (case x of None \<Rightarrow> d | Some a \<Rightarrow> a)"

definition validationResult :: "Parameters \<Rightarrow> string \<Rightarrow> string \<Rightarrow> ValidationResult" where
  "validationResult result system' code' =
     (let resultParam = find_parameter result ''result'';
          displayParam = find_parameter result ''display'';
          codeParam = find_parameter result ''code'';
          systemParam = find_parameter result ''system'';
          versionParam = find_parameter result ''version''
      in \<lparr>valid = nullish (chain resultParam valueBoolean) False,
          code = nullish (chain codeParam valueCode) code',
          system = nullish (chain systemParam valueUri) system',
          version = chain versionParam valueString,
          display = chain displayParam valueString\<rparr>)"

text \<open>
  The object literal as \<^verbatim>\<open>JSON.stringify\<close> sees it: the properties in the order
  they are written, a property whose value is undefined left out.
\<close>

definition optional_property :: "string \<Rightarrow> string option \<Rightarrow> (string \<times> 'n json) list" where
  "optional_property k v = (case v of None \<Rightarrow> [] | Some s \<Rightarrow> [(k, JString s)])"

definition validationResult_json :: "ValidationResult \<Rightarrow> 'n json" where
  "validationResult_json r =
     JObject ([(''valid'', JBool (valid r)), (''code'', JString (code r)),
               (''system'', JString (system r))]
              @ optional_property ''version'' (version r)
              @ optional_property ''display'' (display r))"

definition validate_try ::
  "(Parameters, 'n) env \<Rightarrow> URL \<Rightarrow> string \<Rightarrow> string \<Rightarrow> thrown + ToolResponse" where
  "validate_try env validateUrl system' code' =
     (case fetch env validateUrl request_init of
        Inl e \<Rightarrow> Inl e
      | Inr response \<Rightarrow>
          if \<not> ok response then
            (case text_result response of
               Inl e \<Rightarrow> Inl e
             | Inr errorText \<Rightarrow>
                 Inr \<lparr>content =
                        [\<lparr>type = ''text'',
                          text = ''Terminology server error ('' @ string_of_nat (status response)
                                 @ ''): '' @ errorText\<rparr>],
                      isError = Some True\<rparr>)
          else
            (case json_result response of
               Inl e \<Rightarrow> Inl e
             | Inr result \<Rightarrow>
                 Inr \<lparr>content =
                        [\<lparr>type = ''text'',
                          text = JSON_stringify (number_text env)
                                   (validationResult_json (validationResult result system' code'))\<rparr>],
                      isError = None\<rparr>))"

text \<open>
  The three parameters always set, and \<^verbatim>\<open>if (version)\<close>: an undefined version and
  the empty string are both falsy.
\<close>

definition validate_url :: "URL \<Rightarrow> string \<Rightarrow> string \<Rightarrow> string \<Rightarrow> string option \<Rightarrow> URL" where
  "validate_url u system' code' url version' =
     (let u3 = set_param (set_param (set_param u ''url'' url) ''system'' system') ''code'' code'
      in case version' of
           None \<Rightarrow> u3
         | Some v \<Rightarrow> if v \<noteq> [] then set_param u3 ''version'' v else u3)"

definition validate_code ::
  "(Parameters, 'n) env \<Rightarrow> string \<Rightarrow> string \<Rightarrow> string \<Rightarrow> string option
     \<Rightarrow> thrown + ToolResponse" where
  "validate_code env system' code' url version' =
     (case new_URL env (serverBase env @ ''/ValueSet/$validate-code'') of
        Inl e \<Rightarrow> Inl e
      | Inr u \<Rightarrow>
          (case validate_try env (validate_url u system' code' url version') system' code' of
             Inr r \<Rightarrow> Inr r
           | Inl error \<Rightarrow>
               Inr \<lparr>content =
                      [\<lparr>type = ''text'', text = ''Error validating code: '' @ error_text error\<rparr>],
                    isError = Some True\<rparr>))"

subsection \<open>The declared input schemas\<close>

text \<open>
  The zod schemas the tools are registered with: \<^verbatim>\<open>z.string()\<close> accepts every
  string value and nothing else; \<^verbatim>\<open>.optional()\<close> accepts an undefined field as well.
  The registry parses the raw arguments of an invocation against the object of the
  declared fields, and calls the handler only when every field is accepted.
\<close>

datatype zod = ZString | ZOptional zod

fun zod_accepts :: "zod \<Rightarrow> 'n json option \<Rightarrow> bool" where
  "zod_accepts ZString (Some (JString s)) = True"
| "zod_accepts ZString _ = False"
| "zod_accepts (ZOptional z) None = True"
| "zod_accepts (ZOptional z) (Some v) = zod_accepts z (Some v)"

definition schema_accepts :: "(string \<times> zod) list \<Rightarrow> (string \<rightharpoonup> 'n json) \<Rightarrow> bool" where
  "schema_accepts schema args = list_all (\<lambda>f. zod_accepts (snd f) (args (fst f))) schema"

definition lookup_code_schema :: "(string \<times> zod) list" where
  "lookup_code_schema = [(''filter'', ZString), (''url'', ZString)]"

definition validate_code_schema :: "(string \<times> zod) list" where
  "validate_code_schema =
     [(''system'', ZString), (''code'', ZString), (''url'', ZString),
      (''version'', ZOptional ZString)]"

subsection \<open>Outcomes of the remote call\<close>

text \<open>
  The three ways the call behind a request can fail: \<^verbatim>\<open>fetch\<close> itself throws; it
  resolves to a response whose status is not a success; or reading the body of the
  response throws (the body is read with \<^verbatim>\<open>text()\<close> after a failure status and with
  \<^verbatim>\<open>json()\<close> after a success).
\<close>

definition call_threw :: "('b, 'n) env \<Rightarrow> URL \<Rightarrow> bool" where
  "call_threw env u = isl (fetch env u request_init)"

definition non_success_status :: "('b, 'n) env \<Rightarrow> URL \<Rightarrow> bool" where
  "non_success_status env u =
     (case fetch env u request_init of
        Inl e \<Rightarrow> False
      | Inr response \<Rightarrow> \<not> (200 \<le> status response \<and> status response \<le> 299))"

definition parsing_threw :: "('b, 'n) env \<Rightarrow> URL \<Rightarrow> bool" where
  "parsing_threw env u =
     (case fetch env u request_init of
        Inl e \<Rightarrow> False
      | Inr response \<Rightarrow>
          if 200 \<le> status response \<and> status response \<le> 299 then isl (json_result response)
          else isl (text_result response))"

subsection \<open>The validation result as the specification words it\<close>

text \<open>
  The response's parameter list read as a mapping from names to parameters, the first
  parameter of a name standing for the name; each field of the result is projected from
  the mapping with its default. The input version is not an argument.
\<close>

definition spec_parameter_named :: "Parameters \<Rightarrow> string \<Rightarrow> ParametersParameter option" where
  "spec_parameter_named result n =
     (case parameter result of
        None \<Rightarrow> None
      | Some ps \<Rightarrow> map_of (map (\<lambda>p. (name p, p)) ps) n)"

definition spec_validation_result :: "Parameters \<Rightarrow> string \<Rightarrow> string \<Rightarrow> ValidationResult" where
  "spec_validation_result result input_system input_code =
     \<lparr>valid =
        (case spec_parameter_named result ''result'' of
           None \<Rightarrow> False
         | Some p \<Rightarrow> (case valueBoolean p of None \<Rightarrow> False | Some b \<Rightarrow> b)),
      code =
        (case spec_parameter_named result ''code'' of
           None \<Rightarrow> input_code
         | Some p \<Rightarrow> (case valueCode p of None \<Rightarrow> input_code | Some c \<Rightarrow> c)),
      system =
        (case spec_parameter_named result ''system'' of
           None \<Rightarrow> input_system
         | Some p \<Rightarrow> (case valueUri p of None \<Rightarrow> input_system | Some s \<Rightarrow> s)),
      version =
        (case spec_parameter_named result ''version'' of
           None \<Rightarrow> None
         | Some p \<Rightarrow> valueString p),
      display =
        (case spec_parameter_named result ''display'' of
           None \<Rightarrow> None
         | Some p \<Rightarrow> valueString p)\<rparr>"

subsection \<open>Scenarios\<close>

text \<open>
  The surroundings of the repository's tests: no \<^verbatim>\<open>TX_SERVER\<close>, a base URL without
  a query, and a \<^verbatim>\<open>fetch\<close> that resolves to one given response or throws one given
  value, whatever the request. The bodies of the tests hold no number: the number type of
  the scenarios has the one value zero, written \<open>0\<close>.
\<close>

definition zero_text :: "unit \<Rightarrow> string" where
  "zero_text x = ''0''"

definition plain_URL :: "string \<Rightarrow> thrown + URL" where
  "plain_URL s = Inr \<lparr>location = s, searchParams = []\<rparr>"

definition env_resolving :: "'b Response \<Rightarrow> ('b, unit) env" where
  "env_resolving response =
     \<lparr>TX_SERVER = None, new_URL = plain_URL, fetch = (\<lambda>u init. Inr response),
      number_text = zero_text\<rparr>"

definition env_rejecting :: "thrown \<Rightarrow> ('b, unit) env" where
  "env_rejecting e =
     \<lparr>TX_SERVER = None, new_URL = plain_URL, fetch = (\<lambda>u init. Inl e),
      number_text = zero_text\<rparr>"

text \<open>
  A deployment whose \<^verbatim>\<open>TX_SERVER\<close> is set to the empty string. The string is not
  nullish, so it is the base; the string handed to \<^verbatim>\<open>new URL\<close> then starts with
  the path and has no scheme, and the constructor throws its
  \<^verbatim>\<open>TypeError\<close>, as it does for every string that starts with a slash.
\<close>

definition absolute_URL :: "string \<Rightarrow> thrown + URL" where
  "absolute_URL s =
     (case s of
        [] \<Rightarrow> Inl (JsError ''Invalid URL'')
      | c # cs \<Rightarrow> if c = CHR ''/'' then Inl (JsError ''Invalid URL'') else plain_URL s)"

definition bad_base_env :: "('b, unit) env" where
  "bad_base_env =
     \<lparr>TX_SERVER = Some [], new_URL = absolute_URL,
      fetch = (\<lambda>u init. Inl (JsError ''connect ECONNREFUSED'')), number_text = zero_text\<rparr>"

definition expand_location :: URL where
  "expand_location =
     \<lparr>location = ''https://tx.ontoserver.csiro.au/fhir/ValueSet/$expand'', searchParams = []\<rparr>"

definition validate_location :: URL where
  "validate_location =
     \<lparr>location = ''https://tx.ontoserver.csiro.au/fhir/ValueSet/$validate-code'',
      searchParams = []\<rparr>"

definition json_body :: "'b \<Rightarrow> 'b Response" where
  "json_body b = \<lparr>status = 200, text_result = Inr [], json_result = Inr b\<rparr>"

definition error_body :: "nat \<Rightarrow> string \<Rightarrow> 'b Response" where
  "error_body n t =
     \<lparr>status = n, text_result = Inr t, json_result = Inl (JsError ''Unexpected token'')\<rparr>"

definition empty_expansion :: "unit ValueSet" where
  "empty_expansion = \<lparr>expansion = Some \<lparr>contains = Some []\<rparr>\<rparr>"

definition test_match :: "unit json" where
  "test_match = JObject [(''code'', JString ''12345''), (''display'', JString ''Test Code'')]"

definition other_match :: "unit json" where
  "other_match = JObject [(''code'', JString ''67890'')]"

definition two_matches :: "unit ValueSet" where
  "two_matches = \<lparr>expansion = Some \<lparr>contains = Some [test_match, other_match]\<rparr>\<rparr>"

definition named_parameter :: "string \<Rightarrow> ParametersParameter" where
  "named_parameter n =
     \<lparr>name = n, valueBoolean = None, valueCode = None, valueUri = None, valueString = None\<rparr>"

definition loinc_parameters :: Parameters where
  "loinc_parameters =
     \<lparr>parameter = Some
        [(named_parameter ''result'')\<lparr>valueBoolean := Some True\<rparr>,
         (named_parameter ''code'')\<lparr>valueCode := Some ''72133-2''\<rparr>,
         (named_parameter ''system'')\<lparr>valueUri := Some ''http://loinc.org''\<rparr>,
         (named_parameter ''display'')\<lparr>valueString := Some ''Respiratory rate''\<rparr>]\<rparr>"


definition empty_strings :: "string \<rightharpoonup> unit json" where
  "empty_strings = [''filter'' \<mapsto> JString [], ''url'' \<mapsto> JString []]"

definition both_strings :: "string \<rightharpoonup> unit json" where
  "both_strings =
     [''filter'' \<mapsto> JString ''hypertension'', ''url'' \<mapsto> JString ''http://loinc.org/vs'']"

definition filter_only :: "string \<rightharpoonup> unit json" where
  "filter_only = [''filter'' \<mapsto> JString ''hypertension'']"

definition filter_not_string :: "string \<rightharpoonup> unit json" where
  "filter_not_string =
     [''filter'' \<mapsto> JNumber (), ''url'' \<mapsto> JString ''http://loinc.org/vs'']"

definition empty_env :: "(unit ValueSet, unit) env" where
  "empty_env = env_resolving (json_body empty_expansion)"

definition matches_env :: "(unit ValueSet, unit) env" where
  "matches_env = env_resolving (json_body two_matches)"

definition server_error_env :: "(unit ValueSet, unit) env" where
  "server_error_env = env_resolving (error_body 500 ''Server Error'')"

definition refused_env :: "(unit ValueSet, unit) env" where
  "refused_env = env_rejecting (JsError ''connect ECONNREFUSED'')"

definition not_found_env :: "(Parameters, unit) env" where
  "not_found_env = env_resolving (error_body 404 ''ValueSet not found'')"

definition loinc_env :: "(Parameters, unit) env" where
  "loinc_env = env_resolving (json_body loinc_parameters)"


definition not_json_env :: "(Parameters, unit) env" where
  "not_json_env =
     env_resolving \<lparr>status = 200, text_result = Inr ''<html>'',
                    json_result = Inl (JsError ''Unexpected token <'')\<rparr>"

text \<open>The number a decimal numeral denotes.\<close>

definition decimal_value :: "string \<Rightarrow> nat" where
  "decimal_value s = foldl (\<lambda>a c. 10 * a + (of_char c - 48)) 0 s"

section \<open>Properties\<close>

subsection \<open>Auxiliary facts\<close>

lemma ok_iff: "ok response = (200 \<le> status response \<and> status response \<le> 299)"
  by (auto simp: ok_def)

lemma digit_char_code: "n < 10 \<Longrightarrow> of_char (digit_char n) = 48 + n"
proof -
  have "list_all (\<lambda>k. of_char (digit_char k) = 48 + k) [0..<10]"
    by code_simp
  then have "\<forall>k \<in> set [0..<10]. of_char (digit_char k) = 48 + k"
    by (simp only: list_all_iff)
  moreover assume "n < 10"
  ultimately show ?thesis by simp
qed

text \<open>The numeral printed for a number denotes that number.\<close>

lemma decimal_value_string_of_nat: "decimal_value (string_of_nat n) = n"
proof (induction n rule: string_of_nat.induct)
  case (1 n)
  show ?case
  proof (cases "n < 10")
    case True
    then show ?thesis
      by (subst string_of_nat.simps) (simp add: decimal_value_def digit_char_code)
  next
    case False
    have "n mod 10 < 10" by simp
    with False 1 show ?thesis
      by (subst string_of_nat.simps) (simp add: decimal_value_def digit_char_code)
  qed
qed

lemma getAll_removed: "searchParams_getAll (filter (\<lambda>q. fst q \<noteq> n) ps) n = []"
  by (induction ps) (simp_all add: searchParams_getAll_def)

lemma getAll_kept:
  "m \<noteq> n \<Longrightarrow> searchParams_getAll (filter (\<lambda>q. fst q \<noteq> n) ps) m = searchParams_getAll ps m"
  by (induction ps) (simp_all add: searchParams_getAll_def)

lemma getAll_Cons:
  "searchParams_getAll (p # ps) m =
     (if fst p = m then snd p # searchParams_getAll ps m else searchParams_getAll ps m)"
  by (simp add: searchParams_getAll_def)

lemma getAll_set_same: "searchParams_getAll (searchParams_set ps n v) n = [v]"
proof (induction ps)
  case Nil
  show ?case by (simp add: getAll_Cons) (simp add: searchParams_getAll_def)
next
  case (Cons p ps)
  then show ?case by (simp add: getAll_Cons getAll_removed)
qed

lemma getAll_set_other:
  "m \<noteq> n \<Longrightarrow> searchParams_getAll (searchParams_set ps n v) m = searchParams_getAll ps m"
proof (induction ps)
  case Nil
  then show ?case by (simp add: getAll_Cons)
next
  case (Cons p ps)
  then show ?case by (simp add: getAll_Cons getAll_kept)
qed

lemma getAll_set_param:
  "searchParams_getAll (searchParams (set_param u n v)) m =
     (if m = n then [v] else searchParams_getAll (searchParams u) m)"
  by (simp add: set_param_def getAll_set_same getAll_set_other)

text \<open>A handler throws exactly when the URL constructor does.\<close>

lemma lookup_code_throws_iff:
  "lookup_code env f url = Inl e \<longleftrightarrow> new_URL env (serverBase env @ ''/ValueSet/$expand'') = Inl e"
  by (simp add: lookup_code_def split: sum.splits)

lemma validate_code_throws_iff:
  "validate_code env s c url v = Inl e \<longleftrightarrow>
     new_URL env (serverBase env @ ''/ValueSet/$validate-code'') = Inl e"
  by (simp add: validate_code_def split: sum.splits)

lemma find_is_map_of: "find (\<lambda>p. name p = n) ps = map_of (map (\<lambda>p. (name p, p)) ps) n"
  by (induction ps) auto

lemma find_parameter_spec: "find_parameter result n = spec_parameter_named result n"
  by (simp add: find_parameter_def spec_parameter_named_def find_is_map_of split: option.splits)


lemma scenario_expand_url:
  "new_URL (env_resolving r) (serverBase (env_resolving r) @ ''/ValueSet/$expand'') = Inr expand_location"
  by (simp add: env_resolving_def serverBase_def plain_URL_def expand_location_def)

lemma scenario_validate_url:
  "new_URL (env_resolving r) (serverBase (env_resolving r) @ ''/ValueSet/$validate-code'') =
     Inr validate_location"
  by (simp add: env_resolving_def serverBase_def plain_URL_def validate_location_def)

lemma scenario_fetch: "fetch (env_resolving r) u init = Inr r"
  by (simp add: env_resolving_def)

lemma scenario_number_text: "number_text (env_resolving r) = zero_text"
  by (simp add: env_resolving_def)

subsection \<open>Error flag\<close>

text \<open>
  C1. Whenever a handler returns a response, \<open>isError\<close> is \<open>true\<close> if the remote call
  returned a status outside 200-299, or \<^verbatim>\<open>fetch\<close> or the reading of the body threw,
  and it is unset otherwise. In particular a success response whose expansion has an empty
  match list gives a response without the flag. A handler returns a response whenever its
  request URL could be constructed.
\<close>

theorem isError_iff_remote_failure:
  "(new_URL envL (serverBase envL @ ''/ValueSet/$expand'') = Inr uL \<longrightarrow>
      (\<exists>r. lookup_code envL f url = Inr r \<and>
           isError r =
             (if call_threw envL (expand_url uL f url)
                 \<or> non_success_status envL (expand_url uL f url)
                 \<or> parsing_threw envL (expand_url uL f url)
              then Some True else None)))
   \<and> (new_URL envV (serverBase envV @ ''/ValueSet/$validate-code'') = Inr uV \<longrightarrow>
      (\<exists>r. validate_code envV s c url' v = Inr r \<and>
           isError r =
             (if call_threw envV (validate_url uV s c url' v)
                 \<or> non_success_status envV (validate_url uV s c url' v)
                 \<or> parsing_threw envV (validate_url uV s c url' v)
              then Some True else None)))
   \<and> (new_URL envL (serverBase envL @ ''/ValueSet/$expand'') = Inr uL
        \<and> fetch envL (expand_url uL f url) request_init = Inr response
        \<and> 200 \<le> status response \<and> status response \<le> 299
        \<and> json_result response = Inr result
        \<and> expansion result = Some \<lparr>contains = Some []\<rparr> \<longrightarrow>
      (\<exists>r. lookup_code envL f url = Inr r \<and> isError r = None))"
proof (intro conjI impI)
  assume "new_URL envL (serverBase envL @ ''/ValueSet/$expand'') = Inr uL"
  then show "\<exists>r. lookup_code envL f url = Inr r \<and>
           isError r =
             (if call_threw envL (expand_url uL f url)
                 \<or> non_success_status envL (expand_url uL f url)
                 \<or> parsing_threw envL (expand_url uL f url)
              then Some True else None)"
    by (auto simp: lookup_code_def lookup_try_def ok_iff call_threw_def non_success_status_def
        parsing_threw_def split: sum.splits option.splits list.splits)
next
  assume "new_URL envV (serverBase envV @ ''/ValueSet/$validate-code'') = Inr uV"
  then show "\<exists>r. validate_code envV s c url' v = Inr r \<and>
           isError r =
             (if call_threw envV (validate_url uV s c url' v)
                 \<or> non_success_status envV (validate_url uV s c url' v)
                 \<or> parsing_threw envV (validate_url uV s c url' v)
              then Some True else None)"
    by (auto simp: validate_code_def validate_try_def ok_iff call_threw_def non_success_status_def
        parsing_threw_def split: sum.splits)
next
  assume "new_URL envL (serverBase envL @ ''/ValueSet/$expand'') = Inr uL
        \<and> fetch envL (expand_url uL f url) request_init = Inr response
        \<and> 200 \<le> status response \<and> status response \<le> 299
        \<and> json_result response = Inr result
        \<and> expansion result = Some \<lparr>contains = Some []\<rparr>"
  then show "\<exists>r. lookup_code envL f url = Inr r \<and> isError r = None"
    by (simp add: lookup_code_def lookup_try_def ok_iff expansion_contains_def)
qed

theorem isError_iff_remote_failure_witness:
  "new_URL empty_env (serverBase empty_env @ ''/ValueSet/$expand'') = Inr expand_location
   \<and> new_URL not_found_env (serverBase not_found_env @ ''/ValueSet/$validate-code'')
       = Inr validate_location
   \<and> (\<exists>r. lookup_code empty_env ''hypertension'' ''http://snomed.info/sct?fhir_vs'' = Inr r
          \<and> isError r = None)
   \<and> (\<exists>r. validate_code not_found_env ''http://snomed.info/sct'' ''12345''
              ''http://invalid-valueset-url'' None = Inr r
          \<and> isError r = Some True)"
  using isError_iff_remote_failure
    [where envL = empty_env and uL = expand_location
       and f = "''hypertension''" and url = "''http://snomed.info/sct?fhir_vs''"
       and envV = not_found_env
       and uV = validate_location and s = "''http://snomed.info/sct''" and c = "''12345''"
       and url' = "''http://invalid-valueset-url''" and v = None
       and response = "json_body empty_expansion" and result = empty_expansion]
  by (simp add: empty_env_def not_found_env_def scenario_expand_url scenario_validate_url
      scenario_fetch call_threw_def non_success_status_def parsing_threw_def json_body_def
      error_body_def empty_expansion_def)

subsection \<open>The validation result\<close>

text \<open>
  C2. When the remote call of a validate-code invocation succeeds and its body parses, the
  response is not an error and its text is the pretty-printed validation result, whose
  fields are those the specification names: \<open>valid\<close> from the parameter \<open>result\<close>
  (false when absent), \<open>code\<close> and \<open>system\<close> from the parameters of those names (the
  inputs when absent), \<open>display\<close> and \<open>version\<close> from theirs (absent when absent). The
  input version \<open>v\<close> has no part in the result.
\<close>

theorem validate_code_result:
  assumes "new_URL env (serverBase env @ ''/ValueSet/$validate-code'') = Inr u"
    and "fetch env (validate_url u s c url' v) request_init = Inr response"
    and "200 \<le> status response \<and> status response \<le> 299"
    and "json_result response = Inr result"
  shows "validate_code env s c url' v =
           Inr \<lparr>content =
                  [\<lparr>type = ''text'',
                    text = JSON_stringify (number_text env)
                             (validationResult_json (spec_validation_result result s c))\<rparr>],
                isError = None\<rparr>"
proof -
  have "validationResult result s c = spec_validation_result result s c"
    by (simp add: validationResult_def spec_validation_result_def find_parameter_spec
        chain_def nullish_def split: option.splits)
  with assms show ?thesis
    by (simp add: validate_code_def validate_try_def ok_iff)
qed

theorem validate_code_result_witness:
  "new_URL loinc_env (serverBase loinc_env @ ''/ValueSet/$validate-code'') = Inr validate_location
   \<and> fetch loinc_env
        (validate_url validate_location ''http://loinc.org'' ''72133-2'' ''http://loinc.org/vs''
           (Some ''2.77''))
        request_init = Inr (json_body loinc_parameters)
   \<and> 200 \<le> status (json_body loinc_parameters) \<and> status (json_body loinc_parameters) \<le> 299
   \<and> json_result (json_body loinc_parameters) = Inr loinc_parameters
   \<and> validate_code loinc_env ''http://loinc.org'' ''72133-2'' ''http://loinc.org/vs'' (Some ''2.77'') =
       Inr \<lparr>content =
              [\<lparr>type = ''text'',
                text = JSON_stringify zero_text
                  (validationResult_json
                     \<lparr>valid = True, code = ''72133-2'', system = ''http://loinc.org'',
                      version = None, display = Some ''Respiratory rate''\<rparr>)\<rparr>],
            isError = None\<rparr>"
proof -
  have h1: "new_URL loinc_env (serverBase loinc_env @ ''/ValueSet/$validate-code'') = Inr validate_location"
    by (simp add: loinc_env_def scenario_validate_url)
  have h2: "fetch loinc_env
        (validate_url validate_location ''http://loinc.org'' ''72133-2'' ''http://loinc.org/vs''
           (Some ''2.77''))
        request_init = Inr (json_body loinc_parameters)"
    by (simp add: loinc_env_def scenario_fetch)
  have h3: "200 \<le> status (json_body loinc_parameters) \<and> status (json_body loinc_parameters) \<le> 299"
    by (simp add: json_body_def)
  have h4: "json_result (json_body loinc_parameters) = Inr loinc_parameters"
    by (simp add: json_body_def)
  have "spec_validation_result loinc_parameters ''http://loinc.org'' ''72133-2'' =
          \<lparr>valid = True, code = ''72133-2'', system = ''http://loinc.org'',
           version = None, display = Some ''Respiratory rate''\<rparr>"
    by (simp add: spec_validation_result_def spec_parameter_named_def loinc_parameters_def
        named_parameter_def)
  moreover have "number_text loinc_env = zero_text"
    by (simp add: loinc_env_def scenario_number_text)
  ultimately show ?thesis
    using validate_code_result [OF h1 h2 h3 h4] h1 h2 h3 h4 by simp
qed

subsection \<open>Lookup results\<close>

text \<open>
  C3. When the remote call of a lookup-code invocation succeeds and the expansion's match
  list is not empty, the response is not an error and its text is the pretty-printed JSON
  of the first match, whatever follows it in the list and whatever the first match holds
  (its numbers written as the runtime writes them).
\<close>

theorem lookup_code_first_match:
  assumes "new_URL env (serverBase env @ ''/ValueSet/$expand'') = Inr u"
    and "fetch env (expand_url u f url) request_init = Inr response"
    and "200 \<le> status response \<and> status response \<le> 299"
    and "json_result response = Inr result"
    and "expansion result = Some e"
    and "contains e = Some (firstMatch # rest)"
  shows "lookup_code env f url =
           Inr \<lparr>content = [\<lparr>type = ''text'', text = JSON_stringify (number_text env) firstMatch\<rparr>],
                isError = None\<rparr>"
  using assms
  by (simp add: lookup_code_def lookup_try_def ok_iff expansion_contains_def)

theorem lookup_code_first_match_witness:
  "new_URL matches_env (serverBase matches_env @ ''/ValueSet/$expand'') = Inr expand_location
   \<and> fetch matches_env
        (expand_url expand_location ''hypertension'' ''http://snomed.info/sct?fhir_vs'')
        request_init = Inr (json_body two_matches)
   \<and> 200 \<le> status (json_body two_matches) \<and> status (json_body two_matches) \<le> 299
   \<and> json_result (json_body two_matches) = Inr two_matches
   \<and> expansion two_matches = Some \<lparr>contains = Some [test_match, other_match]\<rparr>
   \<and> contains \<lparr>contains = Some [test_match, other_match]\<rparr> = Some (test_match # [other_match])
   \<and> lookup_code matches_env ''hypertension'' ''http://snomed.info/sct?fhir_vs'' =
       Inr \<lparr>content = [\<lparr>type = ''text'', text = JSON_stringify zero_text test_match\<rparr>], isError = None\<rparr>"
proof -
  have h1: "new_URL matches_env (serverBase matches_env @ ''/ValueSet/$expand'') = Inr expand_location"
    by (simp add: matches_env_def scenario_expand_url)
  have h2: "fetch matches_env
        (expand_url expand_location ''hypertension'' ''http://snomed.info/sct?fhir_vs'')
        request_init = Inr (json_body two_matches)"
    by (simp add: matches_env_def scenario_fetch)
  have h3: "200 \<le> status (json_body two_matches) \<and> status (json_body two_matches) \<le> 299"
    by (simp add: json_body_def)
  have h4: "json_result (json_body two_matches) = Inr two_matches"
    by (simp add: json_body_def)
  have h5: "expansion two_matches = Some \<lparr>contains = Some [test_match, other_match]\<rparr>"
    by (simp add: two_matches_def)
  have h6: "contains \<lparr>contains = Some [test_match, other_match]\<rparr> = Some (test_match # [other_match])"
    by simp
  have h7: "number_text matches_env = zero_text"
    by (simp add: matches_env_def scenario_number_text)
  from lookup_code_first_match [OF h1 h2 h3 h4 h5 h6] h1 h2 h3 h4 h5 h6 h7 show ?thesis
    by simp
qed

text \<open>
  C4. When the remote call of a lookup-code invocation succeeds and the expansion, or its
  match list, is absent, or the list is empty, the response carries the text
  \<open>No matching codes found\<close> and no error flag.
\<close>

theorem lookup_code_no_match:
  assumes "new_URL env (serverBase env @ ''/ValueSet/$expand'') = Inr u"
    and "fetch env (expand_url u f url) request_init = Inr response"
    and "200 \<le> status response \<and> status response \<le> 299"
    and "json_result response = Inr result"
    and "expansion result = None
         \<or> (\<exists>e. expansion result = Some e \<and> (contains e = None \<or> contains e = Some []))"
  shows "lookup_code env f url =
           Inr \<lparr>content = [\<lparr>type = ''text'', text = ''No matching codes found''\<rparr>],
                isError = None\<rparr>"
  using assms
  by (auto simp: lookup_code_def lookup_try_def ok_iff expansion_contains_def)

theorem lookup_code_no_match_witness:
  "new_URL empty_env (serverBase empty_env @ ''/ValueSet/$expand'') = Inr expand_location
   \<and> fetch empty_env
        (expand_url expand_location ''hypertension'' ''http://snomed.info/sct?fhir_vs'')
        request_init = Inr (json_body empty_expansion)
   \<and> 200 \<le> status (json_body empty_expansion) \<and> status (json_body empty_expansion) \<le> 299
   \<and> json_result (json_body empty_expansion) = Inr empty_expansion
   \<and> (\<exists>e. expansion empty_expansion = Some e \<and> contains e = Some [])
   \<and> lookup_code empty_env ''hypertension'' ''http://snomed.info/sct?fhir_vs'' =
       Inr \<lparr>content = [\<lparr>type = ''text'', text = ''No matching codes found''\<rparr>], isError = None\<rparr>"
proof -
  have h1: "new_URL empty_env (serverBase empty_env @ ''/ValueSet/$expand'') = Inr expand_location"
    by (simp add: empty_env_def scenario_expand_url)
  have h2: "fetch empty_env
        (expand_url expand_location ''hypertension'' ''http://snomed.info/sct?fhir_vs'')
        request_init = Inr (json_body empty_expansion)"
    by (simp add: empty_env_def scenario_fetch)
  have h3: "200 \<le> status (json_body empty_expansion) \<and> status (json_body empty_expansion) \<le> 299"
    by (simp add: json_body_def)
  have h4: "json_result (json_body empty_expansion) = Inr empty_expansion"
    by (simp add: json_body_def)
  have h5: "\<exists>e. expansion empty_expansion = Some e \<and> contains e = Some []"
    by (simp add: empty_expansion_def)
  then have h5': "expansion empty_expansion = None
         \<or> (\<exists>e. expansion empty_expansion = Some e \<and> (contains e = None \<or> contains e = Some []))"
    by blast
  from lookup_code_no_match [OF h1 h2 h3 h4 h5'] h1 h2 h3 h4 h5 show ?thesis
    by simp
qed

subsection \<open>Failures\<close>

text \<open>
  C5. When the status of the remote response is outside 200-299, either handler returns a
  response with \<open>isError\<close> true, and when \<^verbatim>\<open>response.text()\<close> gives the body, the
  text of the response is \<open>Terminology server error (\<close>status\<open>): \<close>body, the status
  printed in decimal.
\<close>

theorem server_error_response:
  "(new_URL envL (serverBase envL @ ''/ValueSet/$expand'') = Inr uL
      \<and> fetch envL (expand_url uL f url) request_init = Inr responseL
      \<and> \<not> (200 \<le> status responseL \<and> status responseL \<le> 299) \<longrightarrow>
      (\<exists>r. lookup_code envL f url = Inr r \<and> isError r = Some True) \<and>
      (\<forall>body. text_result responseL = Inr body \<longrightarrow>
         lookup_code envL f url =
           Inr \<lparr>content =
                  [\<lparr>type = ''text'',
                    text = ''Terminology server error ('' @ string_of_nat (status responseL)
                           @ ''): '' @ body\<rparr>],
                isError = Some True\<rparr>))
   \<and> (new_URL envV (serverBase envV @ ''/ValueSet/$validate-code'') = Inr uV
      \<and> fetch envV (validate_url uV s c url' v) request_init = Inr responseV
      \<and> \<not> (200 \<le> status responseV \<and> status responseV \<le> 299) \<longrightarrow>
      (\<exists>r. validate_code envV s c url' v = Inr r \<and> isError r = Some True) \<and>
      (\<forall>body. text_result responseV = Inr body \<longrightarrow>
         validate_code envV s c url' v =
           Inr \<lparr>content =
                  [\<lparr>type = ''text'',
                    text = ''Terminology server error ('' @ string_of_nat (status responseV)
                           @ ''): '' @ body\<rparr>],
                isError = Some True\<rparr>))
   \<and> decimal_value (string_of_nat (status responseL)) = status responseL
   \<and> decimal_value (string_of_nat (status responseV)) = status responseV"
proof (intro conjI impI allI)
  assume h: "new_URL envL (serverBase envL @ ''/ValueSet/$expand'') = Inr uL
      \<and> fetch envL (expand_url uL f url) request_init = Inr responseL
      \<and> \<not> (200 \<le> status responseL \<and> status responseL \<le> 299)"
  then show "\<exists>r. lookup_code envL f url = Inr r \<and> isError r = Some True"
    by (auto simp: lookup_code_def lookup_try_def ok_iff split: sum.splits)
  fix body
  assume "text_result responseL = Inr body"
  with h show "lookup_code envL f url =
           Inr \<lparr>content =
                  [\<lparr>type = ''text'',
                    text = ''Terminology server error ('' @ string_of_nat (status responseL)
                           @ ''): '' @ body\<rparr>],
                isError = Some True\<rparr>"
    by (simp add: lookup_code_def lookup_try_def ok_iff)
next
  assume h: "new_URL envV (serverBase envV @ ''/ValueSet/$validate-code'') = Inr uV
      \<and> fetch envV (validate_url uV s c url' v) request_init = Inr responseV
      \<and> \<not> (200 \<le> status responseV \<and> status responseV \<le> 299)"
  then show "\<exists>r. validate_code envV s c url' v = Inr r \<and> isError r = Some True"
    by (auto simp: validate_code_def validate_try_def ok_iff split: sum.splits)
  fix body
  assume "text_result responseV = Inr body"
  with h show "validate_code envV s c url' v =
           Inr \<lparr>content =
                  [\<lparr>type = ''text'',
                    text = ''Terminology server error ('' @ string_of_nat (status responseV)
                           @ ''): '' @ body\<rparr>],
                isError = Some True\<rparr>"
    by (simp add: validate_code_def validate_try_def ok_iff)
next
  show "decimal_value (string_of_nat (status responseL)) = status responseL"
    by (rule decimal_value_string_of_nat)
  show "decimal_value (string_of_nat (status responseV)) = status responseV"
    by (rule decimal_value_string_of_nat)
qed

theorem server_error_response_witness:
  "new_URL server_error_env (serverBase server_error_env @ ''/ValueSet/$expand'')
     = Inr expand_location
   \<and> fetch server_error_env
        (expand_url expand_location ''hypertension'' ''http://snomed.info/sct?fhir_vs'')
        request_init = Inr (error_body 500 ''Server Error'')
   \<and> \<not> (200 \<le> status (error_body 500 ''Server Error'' :: unit ValueSet Response)
         \<and> status (error_body 500 ''Server Error'' :: unit ValueSet Response) \<le> 299)
   \<and> text_result (error_body 500 ''Server Error'' :: unit ValueSet Response) = Inr ''Server Error''
   \<and> lookup_code server_error_env ''hypertension'' ''http://snomed.info/sct?fhir_vs'' =
       Inr \<lparr>content =
              [\<lparr>type = ''text'', text = ''Terminology server error (500): Server Error''\<rparr>],
            isError = Some True\<rparr>
   \<and> new_URL not_found_env (serverBase not_found_env @ ''/ValueSet/$validate-code'')
     = Inr validate_location
   \<and> fetch not_found_env
        (validate_url validate_location ''http://snomed.info/sct'' ''12345''
           ''http://invalid-valueset-url'' None)
        request_init = Inr (error_body 404 ''ValueSet not found'')
   \<and> \<not> (200 \<le> status (error_body 404 ''ValueSet not found'' :: Parameters Response)
         \<and> status (error_body 404 ''ValueSet not found'' :: Parameters Response) \<le> 299)
   \<and> text_result (error_body 404 ''ValueSet not found'' :: Parameters Response)
       = Inr ''ValueSet not found''
   \<and> validate_code not_found_env ''http://snomed.info/sct'' ''12345''
        ''http://invalid-valueset-url'' None =
       Inr \<lparr>content =
              [\<lparr>type = ''text'', text = ''Terminology server error (404): ValueSet not found''\<rparr>],
            isError = Some True\<rparr>"
proof -
  have n500: "string_of_nat 500 = ''500''" by code_simp
  have n404: "string_of_nat 404 = ''404''" by code_simp
  show ?thesis
    using server_error_response
      [where envL = server_error_env and uL = expand_location
         and f = "''hypertension''" and url = "''http://snomed.info/sct?fhir_vs''"
         and responseL = "error_body 500 ''Server Error''"
         and envV = not_found_env and uV = validate_location
         and s = "''http://snomed.info/sct''" and c = "''12345''"
         and url' = "''http://invalid-valueset-url''" and v = None
         and responseV = "error_body 404 ''ValueSet not found''"]
    by (simp add: server_error_env_def not_found_env_def scenario_expand_url
        scenario_validate_url scenario_fetch error_body_def n500 n404)
qed

text \<open>
  C6, as the code has it. For every invocation whose request URL has been constructed,
  every value thrown by \<^verbatim>\<open>fetch\<close>, by \<^verbatim>\<open>response.text()\<close> or by
  \<^verbatim>\<open>response.json()\<close> is caught inside the handler: the handler returns a
  response, and when one of the three threw \<open>e\<close> the response has \<open>isError\<close> true
  and the text \<open>Error looking up codes: \<close> or \<open>Error validating code: \<close>
  followed by the message of \<open>e\<close>.
\<close>

theorem thrown_values_caught:
  "(new_URL envL (serverBase envL @ ''/ValueSet/$expand'') = Inr uL \<longrightarrow>
      (\<exists>r. lookup_code envL f url = Inr r) \<and>
      (fetch envL (expand_url uL f url) request_init = Inl e
         \<or> (\<exists>response. fetch envL (expand_url uL f url) request_init = Inr response
               \<and> (if 200 \<le> status response \<and> status response \<le> 299
                   then json_result response = Inl e else text_result response = Inl e)) \<longrightarrow>
       lookup_code envL f url =
         Inr \<lparr>content =
                [\<lparr>type = ''text'', text = ''Error looking up codes: '' @ error_text e\<rparr>],
              isError = Some True\<rparr>))
   \<and> (new_URL envV (serverBase envV @ ''/ValueSet/$validate-code'') = Inr uV \<longrightarrow>
      (\<exists>r. validate_code envV s c url' v = Inr r) \<and>
      (fetch envV (validate_url uV s c url' v) request_init = Inl e'
         \<or> (\<exists>response. fetch envV (validate_url uV s c url' v) request_init = Inr response
               \<and> (if 200 \<le> status response \<and> status response \<le> 299
                   then json_result response = Inl e' else text_result response = Inl e')) \<longrightarrow>
       validate_code envV s c url' v =
         Inr \<lparr>content =
                [\<lparr>type = ''text'', text = ''Error validating code: '' @ error_text e'\<rparr>],
              isError = Some True\<rparr>))
   \<and> error_text (JsError message) = message"
proof (intro conjI impI)
  assume "new_URL envL (serverBase envL @ ''/ValueSet/$expand'') = Inr uL"
  then show "\<exists>r. lookup_code envL f url = Inr r"
    by (simp add: lookup_code_def split: sum.splits)
next
  assume "new_URL envL (serverBase envL @ ''/ValueSet/$expand'') = Inr uL"
    and "fetch envL (expand_url uL f url) request_init = Inl e
         \<or> (\<exists>response. fetch envL (expand_url uL f url) request_init = Inr response
               \<and> (if 200 \<le> status response \<and> status response \<le> 299
                   then json_result response = Inl e else text_result response = Inl e))"
  then show "lookup_code envL f url =
         Inr \<lparr>content =
                [\<lparr>type = ''text'', text = ''Error looking up codes: '' @ error_text e\<rparr>],
              isError = Some True\<rparr>"
    by (auto simp: lookup_code_def lookup_try_def ok_iff split: if_splits)
next
  assume "new_URL envV (serverBase envV @ ''/ValueSet/$validate-code'') = Inr uV"
  then show "\<exists>r. validate_code envV s c url' v = Inr r"
    by (simp add: validate_code_def split: sum.splits)
next
  assume "new_URL envV (serverBase envV @ ''/ValueSet/$validate-code'') = Inr uV"
    and "fetch envV (validate_url uV s c url' v) request_init = Inl e'
         \<or> (\<exists>response. fetch envV (validate_url uV s c url' v) request_init = Inr response
               \<and> (if 200 \<le> status response \<and> status response \<le> 299
                   then json_result response = Inl e' else text_result response = Inl e'))"
  then show "validate_code envV s c url' v =
         Inr \<lparr>content =
                [\<lparr>type = ''text'', text = ''Error validating code: '' @ error_text e'\<rparr>],
              isError = Some True\<rparr>"
    by (auto simp: validate_code_def validate_try_def ok_iff split: if_splits)
next
  show "error_text (JsError message) = message" by simp
qed

theorem thrown_values_caught_witness:
  "new_URL refused_env (serverBase refused_env @ ''/ValueSet/$expand'') = Inr expand_location
   \<and> fetch refused_env
        (expand_url expand_location ''hypertension'' ''http://snomed.info/sct?fhir_vs'')
        request_init = Inl (JsError ''connect ECONNREFUSED'')
   \<and> lookup_code refused_env ''hypertension'' ''http://snomed.info/sct?fhir_vs'' =
       Inr \<lparr>content =
              [\<lparr>type = ''text'', text = ''Error looking up codes: connect ECONNREFUSED''\<rparr>],
            isError = Some True\<rparr>
   \<and> new_URL not_json_env (serverBase not_json_env @ ''/ValueSet/$validate-code'')
       = Inr validate_location
   \<and> (\<exists>response.
         fetch not_json_env
           (validate_url validate_location ''http://loinc.org'' ''72133-2'' ''http://loinc.org/vs''
              None)
           request_init = Inr response
         \<and> 200 \<le> status response \<and> status response \<le> 299
         \<and> json_result response = Inl (JsError ''Unexpected token <''))
   \<and> validate_code not_json_env ''http://loinc.org'' ''72133-2'' ''http://loinc.org/vs'' None =
       Inr \<lparr>content =
              [\<lparr>type = ''text'', text = ''Error validating code: Unexpected token <''\<rparr>],
            isError = Some True\<rparr>"
  using thrown_values_caught
    [where envL = refused_env and uL = expand_location
       and f = "''hypertension''" and url = "''http://snomed.info/sct?fhir_vs''"
       and e = "JsError ''connect ECONNREFUSED''"
       and envV = not_json_env and uV = validate_location
       and s = "''http://loinc.org''" and c = "''72133-2''"
       and url' = "''http://loinc.org/vs''" and v = None
       and e' = "JsError ''Unexpected token <''"]
  by (simp add: refused_env_def not_json_env_def env_rejecting_def env_resolving_def
      serverBase_def plain_URL_def expand_location_def validate_location_def)


text \<open>
  The claim as it is written, for every invocation, fails: the request URL is constructed
  before the \<^verbatim>\<open>try\<close> block, and with \<^verbatim>\<open>TX_SERVER\<close> set to the empty string
  the constructor throws and the value leaves either handler.
\<close>

theorem url_constructor_escapes:
  "TX_SERVER (bad_base_env :: (unit ValueSet, unit) env) = Some []
   \<and> new_URL (bad_base_env :: (unit ValueSet, unit) env) ''/ValueSet/$expand''
       = Inl (JsError ''Invalid URL'')
   \<and> lookup_code (bad_base_env :: (unit ValueSet, unit) env) ''hypertension''
        ''http://snomed.info/sct?fhir_vs'' = Inl (JsError ''Invalid URL'')
   \<and> validate_code (bad_base_env :: (Parameters, unit) env) ''http://loinc.org'' ''72133-2''
        ''http://loinc.org/vs'' None = Inl (JsError ''Invalid URL'')"
  by (simp add: bad_base_env_def absolute_URL_def lookup_code_def validate_code_def
      serverBase_def)

subsection \<open>The validation request\<close>

text \<open>
  C7. The URL a validate-code invocation requests carries \<open>url\<close>, \<open>system\<close> and
  \<open>code\<close>, each once and with the input's value. The handler adds a \<open>version\<close>
  parameter only for a version given in the input (and not empty): with no version in the
  input it leaves the parameter as the parsed base has it, so that on a base without a
  version parameter of its own the request has none, not even an empty one.
\<close>

theorem validate_url_parameters:
  "searchParams_getAll (searchParams (validate_url u s c url' v)) ''url'' = [url']
   \<and> searchParams_getAll (searchParams (validate_url u s c url' v)) ''system'' = [s]
   \<and> searchParams_getAll (searchParams (validate_url u s c url' v)) ''code'' = [c]
   \<and> (v = None \<longrightarrow>
        searchParams_getAll (searchParams (validate_url u s c url' v)) ''version''
          = searchParams_getAll (searchParams u) ''version'')
   \<and> (searchParams_getAll (searchParams u) ''version'' = [] \<longrightarrow>
        searchParams_getAll (searchParams (validate_url u s c url' v)) ''version''
          = (case v of None \<Rightarrow> [] | Some version' \<Rightarrow> if version' = [] then [] else [version']))"
  by (simp add: validate_url_def Let_def getAll_set_param split: option.splits)

theorem validate_url_parameters_witness:
  "searchParams_getAll (searchParams validate_location) ''version'' = []
   \<and> searchParams_getAll
        (searchParams (validate_url validate_location ''http://loinc.org'' ''72133-2''
                         ''http://loinc.org/vs'' None)) ''version'' = []
   \<and> searchParams_getAll
        (searchParams (validate_url validate_location ''http://loinc.org'' ''72133-2''
                         ''http://loinc.org/vs'' None)) ''code'' = [''72133-2'']
   \<and> searchParams (validate_url validate_location ''http://loinc.org'' ''72133-2''
                      ''http://loinc.org/vs'' None)
       = [(''url'', ''http://loinc.org/vs''), (''system'', ''http://loinc.org''),
          (''code'', ''72133-2'')]"
proof -
  have h: "searchParams_getAll (searchParams validate_location) ''version'' = []"
    by (simp add: validate_location_def searchParams_getAll_def)
  have e: "searchParams (validate_url validate_location ''http://loinc.org'' ''72133-2''
                      ''http://loinc.org/vs'' None)
       = [(''url'', ''http://loinc.org/vs''), (''system'', ''http://loinc.org''),
          (''code'', ''72133-2'')]"
    by (simp add: validate_url_def validate_location_def set_param_def)
  from validate_url_parameters
    [where u = validate_location and s = "''http://loinc.org''" and c = "''72133-2''"
       and url' = "''http://loinc.org/vs''" and v = None] h e
  show ?thesis by simp
qed

subsection \<open>The lookup schema\<close>

text \<open>
  C8, as the code has it. The schema declared for lookup-code accepts the arguments of an
  invocation exactly when \<open>filter\<close> and \<open>url\<close> are both present and both strings: an
  invocation that lacks one of them, or gives something other than a string, is rejected
  before the handler runs, and the empty string is accepted for either field.
\<close>

theorem lookup_code_schema_accepts:
  "schema_accepts lookup_code_schema args \<longleftrightarrow>
     (\<exists>f u. args ''filter'' = Some (JString f) \<and> args ''url'' = Some (JString u))"
proof -
  have z: "zod_accepts ZString x \<longleftrightarrow> (\<exists>t. x = Some (JString t))" for x
    by (cases "(ZString, x)" rule: zod_accepts.cases) auto
  show ?thesis
    by (simp add: schema_accepts_def lookup_code_schema_def z)
qed

theorem lookup_code_schema_accepts_witness:
  "schema_accepts lookup_code_schema both_strings
   \<and> \<not> schema_accepts lookup_code_schema filter_only
   \<and> \<not> schema_accepts lookup_code_schema filter_not_string"
proof -
  have "schema_accepts lookup_code_schema both_strings"
    using lookup_code_schema_accepts [of both_strings]
    by (simp add: both_strings_def)
  moreover have "\<not> schema_accepts lookup_code_schema filter_only"
    using lookup_code_schema_accepts [of filter_only]
    by (simp add: filter_only_def)
  moreover have "\<not> schema_accepts lookup_code_schema filter_not_string"
    using lookup_code_schema_accepts [of filter_not_string]
    by (simp add: filter_not_string_def)
  ultimately show ?thesis by simp
qed

text \<open>
  The claim as it is written fails: the invocation whose \<open>filter\<close> and \<open>url\<close> are both
  the empty string is accepted by the schema, and the handler runs on it.
\<close>

theorem empty_strings_accepted:
  "empty_strings ''filter'' = Some (JString []) \<and> empty_strings ''url'' = Some (JString [])
   \<and> schema_accepts lookup_code_schema empty_strings
   \<and> lookup_code empty_env [] [] =
       Inr \<lparr>content = [\<lparr>type = ''text'', text = ''No matching codes found''\<rparr>], isError = None\<rparr>"
  by (simp add: empty_strings_def schema_accepts_def lookup_code_schema_def lookup_code_def
      lookup_try_def ok_iff expansion_contains_def empty_env_def json_body_def empty_expansion_def
      scenario_expand_url scenario_fetch)

subsection \<open>The shape of a response\<close>

text \<open>
  C9. Every response a handler returns (for matches, for no match, for a failure status,
  for a caught exception) has as its content a list of exactly one element, of type
  \<open>text\<close>, with a string as its text.
\<close>

theorem content_is_one_text:
  "(lookup_code envL f url = Inr r \<longrightarrow> (\<exists>t. content r = [\<lparr>type = ''text'', text = t\<rparr>]))
   \<and> (validate_code envV s c url' v = Inr r' \<longrightarrow>
        (\<exists>t. content r' = [\<lparr>type = ''text'', text = t\<rparr>]))"
proof (intro conjI impI)
  assume "lookup_code envL f url = Inr r"
  then show "\<exists>t. content r = [\<lparr>type = ''text'', text = t\<rparr>]"
    by (auto simp: lookup_code_def lookup_try_def
        split: sum.splits if_splits option.splits list.splits)
next
  assume "validate_code envV s c url' v = Inr r'"
  then show "\<exists>t. content r' = [\<lparr>type = ''text'', text = t\<rparr>]"
    by (auto simp: validate_code_def validate_try_def split: sum.splits if_splits)
qed

theorem content_is_one_text_witness:
  "lookup_code matches_env ''hypertension'' ''http://snomed.info/sct?fhir_vs'' =
     Inr \<lparr>content = [\<lparr>type = ''text'', text = JSON_stringify zero_text test_match\<rparr>], isError = None\<rparr>
   \<and> validate_code not_found_env ''http://snomed.info/sct'' ''12345''
        ''http://invalid-valueset-url'' None =
       Inr \<lparr>content =
              [\<lparr>type = ''text'',
                text = ''Terminology server error ('' @ string_of_nat 404 @ ''): ValueSet not found''\<rparr>],
            isError = Some True\<rparr>
   \<and> (\<exists>t. content \<lparr>content = [\<lparr>type = ''text'', text = JSON_stringify zero_text test_match\<rparr>],
                     isError = None\<rparr> = [\<lparr>type = ''text'', text = t\<rparr>])
   \<and> (\<exists>t. content
             \<lparr>content =
                [\<lparr>type = ''text'',
                  text = ''Terminology server error ('' @ string_of_nat 404 @ ''): ValueSet not found''\<rparr>],
              isError = Some True\<rparr> = [\<lparr>type = ''text'', text = t\<rparr>])"
proof -
  have l: "lookup_code matches_env ''hypertension'' ''http://snomed.info/sct?fhir_vs'' =
     Inr \<lparr>content = [\<lparr>type = ''text'', text = JSON_stringify zero_text test_match\<rparr>], isError = None\<rparr>"
    by (simp add: lookup_code_def lookup_try_def ok_iff expansion_contains_def matches_env_def
        json_body_def two_matches_def scenario_expand_url scenario_fetch scenario_number_text)
  have v: "validate_code not_found_env ''http://snomed.info/sct'' ''12345''
        ''http://invalid-valueset-url'' None =
       Inr \<lparr>content =
              [\<lparr>type = ''text'',
                text = ''Terminology server error ('' @ string_of_nat 404 @ ''): ValueSet not found''\<rparr>],
            isError = Some True\<rparr>"
    by (simp add: validate_code_def validate_try_def ok_iff not_found_env_def error_body_def
        scenario_validate_url scenario_fetch)
  from content_is_one_text
    [where envL = matches_env and f = "''hypertension''"
       and url = "''http://snomed.info/sct?fhir_vs''"
       and r = "\<lparr>content = [\<lparr>type = ''text'', text = JSON_stringify zero_text test_match\<rparr>],
                  isError = None\<rparr>"
       and envV = not_found_env and s = "''http://snomed.info/sct''" and c = "''12345''"
       and url' = "''http://invalid-valueset-url''" and v = None
       and r' = "\<lparr>content =
              [\<lparr>type = ''text'',
                text = ''Terminology server error ('' @ string_of_nat 404 @ ''): ValueSet not found''\<rparr>],
            isError = Some True\<rparr>"] l v
  show ?thesis by blast
qed

subsection \<open>Parameters without a value, parameters of the same name\<close>



end
